theory Spec2Isabelle
  imports Complex_Main
begin

section \<open>JavaScript values used by the builders\<close>

text \<open>
  The library is a set of fluent builders. Every overloaded accessor has the shape
  \<^verbatim>\<open>f (x) { if (x !== undefined) { this._x = x; return this }; return this._x }\<close>.
  A call is modelled by state passing: the method takes the object and its argument
  (\<open>None\<close> stands for \<^verbatim>\<open>undefined\<close>, that is, for a call without argument) and
  returns the object after the call together with what the call returned.
  A number stored in a builder is a real number.
\<close>

type_synonym coord = "real \<times> real"

text \<open>What a call returns: the receiver itself (chaining), a value, or \<^verbatim>\<open>undefined\<close>.\<close>

datatype 'v ret = This | Val 'v | Undefined

text \<open>
  What a \<^verbatim>\<open>throw\<close> carries: a primitive string (\<^verbatim>\<open>throw "..."\<close>), or one of the
  built-in error objects. The engine raises \<open>TypeError\<close> when a property of
  \<^verbatim>\<open>null\<close> or \<^verbatim>\<open>undefined\<close> is read.
\<close>

datatype thrown = Str string | TypeError | RangeError

text \<open>
  The arithmetic of the engine. \<^verbatim>\<open>make\<close> computes on IEEE 754 doubles: its sums,
  differences, products and quotients are rounded, may underflow to zero, overflow to an
  infinity or be \<^verbatim>\<open>NaN\<close>, and its loop is steered by a comparison of such values. The
  type \<open>'n\<close> of the computed numbers and the operations on it are therefore parameters of
  the model, and nothing is assumed of them: \<open>ar_num\<close> is the number that a literal or a
  stored number denotes, \<open>ar_nan\<close> is \<^verbatim>\<open>NaN\<close>, \<open>ar_gt a b\<close> is \<^verbatim>\<open>a > b\<close>.
\<close>

record 'n arith =
  ar_num :: "real \<Rightarrow> 'n"
  ar_nan :: 'n
  ar_add :: "'n \<Rightarrow> 'n \<Rightarrow> 'n"
  ar_sub :: "'n \<Rightarrow> 'n \<Rightarrow> 'n"
  ar_mul :: "'n \<Rightarrow> 'n \<Rightarrow> 'n"
  ar_div :: "'n \<Rightarrow> 'n \<Rightarrow> 'n"
  ar_gt :: "'n \<Rightarrow> 'n \<Rightarrow> bool"

text \<open>\<^verbatim>\<open>ToNumber\<close> of what a call returned: an object and \<^verbatim>\<open>undefined\<close> give \<^verbatim>\<open>NaN\<close>.\<close>

fun ret_number :: "'n arith \<Rightarrow> real ret \<Rightarrow> 'n" where
  "ret_number A (Val v) = ar_num A v"
| "ret_number A This = ar_nan A"
| "ret_number A Undefined = ar_nan A"

text \<open>\<^verbatim>\<open>ToNumber\<close> of a field that holds a number or \<^verbatim>\<open>null\<close>: \<^verbatim>\<open>null\<close> is \<open>0\<close>.\<close>

fun to_number :: "real option \<Rightarrow> real" where
  "to_number None = 0"
| "to_number (Some v) = v"

text \<open>Reading \<^verbatim>\<open>xs[i]\<close>: out of range the result is \<^verbatim>\<open>undefined\<close>.\<close>

definition js_index :: "'a list \<Rightarrow> nat \<Rightarrow> 'a option" where
  "js_index xs i = (if i < length xs then Some (xs ! i) else None)"

text \<open>Returning a parameter: an absent argument is \<^verbatim>\<open>undefined\<close>.\<close>

fun of_arg :: "'v option \<Rightarrow> 'v ret" where
  "of_arg None = Undefined"
| "of_arg (Some v) = Val v"

section \<open>TimeWindow\<close>

record TimeWindow =
  tw_mon :: bool
  tw_tue :: bool
  tw_wed :: bool
  tw_thurs :: bool
  tw_fri :: bool
  tw_sat :: bool
  tw_sun :: bool
  tw_start :: real
  tw_end :: real
  tw_headway :: real
  tw_dwell :: real
  tw_speed :: real

definition TimeWindow_constructor :: TimeWindow where
  "TimeWindow_constructor =
     \<lparr>tw_mon = True, tw_tue = True, tw_wed = True, tw_thurs = True, tw_fri = True,
      tw_sat = True, tw_sun = True,
      tw_start = 0, tw_end = 24 * 3600 - 1, tw_headway = 10 * 60, tw_dwell = 0,
      tw_speed = 15\<rparr>"

definition TimeWindow_speed :: "TimeWindow \<Rightarrow> real option \<Rightarrow> TimeWindow \<times> real ret" where
  "TimeWindow_speed self speed =
     (case speed of
        Some v \<Rightarrow> (self\<lparr>tw_speed := v\<rparr>, This)
      | None \<Rightarrow> (self, Val (tw_speed self)))"

text \<open>The diagnostic message for a headway under 120 seconds goes to the debug log only.\<close>

definition TimeWindow_headway :: "TimeWindow \<Rightarrow> real option \<Rightarrow> TimeWindow \<times> real ret" where
  "TimeWindow_headway self headway =
     (case headway of
        Some v \<Rightarrow> (self\<lparr>tw_headway := v\<rparr>, This)
      | None \<Rightarrow> (self, Val (tw_headway self)))"

definition TimeWindow_dwell :: "TimeWindow \<Rightarrow> real option \<Rightarrow> TimeWindow \<times> real ret" where
  "TimeWindow_dwell self dwell =
     (case dwell of
        Some v \<Rightarrow> (self\<lparr>tw_dwell := v\<rparr>, This)
      | None \<Rightarrow> (self, Val (tw_dwell self)))"

text \<open>The two setters that validate. A throw happens before the assignment.\<close>

definition TimeWindow_startTime ::
  "TimeWindow \<Rightarrow> real option \<Rightarrow> TimeWindow \<times> (thrown + real ret)" where
  "TimeWindow_startTime self startTime =
     (case startTime of
        Some v \<Rightarrow>
          (if v < 0 \<or> v > 24 * 3600
           then (self, Inl (Str ''Start time must be between zero and 24 * 3600. It is expressed in seconds since GTFS midnight.''))
           else (self\<lparr>tw_start := v\<rparr>, Inr This))
      | None \<Rightarrow> (self, Inr (Val (tw_start self))))"

definition TimeWindow_endTime ::
  "TimeWindow \<Rightarrow> real option \<Rightarrow> TimeWindow \<times> (thrown + real ret)" where
  "TimeWindow_endTime self endTime =
     (case endTime of
        Some v \<Rightarrow>
          (if v < 0 \<or> v > 48 * 3600
           then (self, Inl (Str ''Start time must be between zero and 48 * 3600. It is expressed in seconds since GTFS midnight.''))
           else (self\<lparr>tw_end := v\<rparr>, Inr This))
      | None \<Rightarrow> (self, Inr (Val (tw_end self))))"

definition TimeWindow_monday :: "TimeWindow \<Rightarrow> bool option \<Rightarrow> TimeWindow \<times> bool ret" where
  "TimeWindow_monday self monday =
     (case monday of
        Some v \<Rightarrow> (self\<lparr>tw_mon := v\<rparr>, This)
      | None \<Rightarrow> (self, Val (tw_mon self)))"

definition TimeWindow_tuesday :: "TimeWindow \<Rightarrow> bool option \<Rightarrow> TimeWindow \<times> bool ret" where
  "TimeWindow_tuesday self tuesday =
     (case tuesday of
        Some v \<Rightarrow> (self\<lparr>tw_tue := v\<rparr>, This)
      | None \<Rightarrow> (self, Val (tw_tue self)))"

definition TimeWindow_wednesday :: "TimeWindow \<Rightarrow> bool option \<Rightarrow> TimeWindow \<times> bool ret" where
  "TimeWindow_wednesday self wednesday =
     (case wednesday of
        Some v \<Rightarrow> (self\<lparr>tw_wed := v\<rparr>, This)
      | None \<Rightarrow> (self, Val (tw_wed self)))"

definition TimeWindow_thursday :: "TimeWindow \<Rightarrow> bool option \<Rightarrow> TimeWindow \<times> bool ret" where
  "TimeWindow_thursday self thursday =
     (case thursday of
        Some v \<Rightarrow> (self\<lparr>tw_thurs := v\<rparr>, This)
      | None \<Rightarrow> (self, Val (tw_thurs self)))"

definition TimeWindow_friday :: "TimeWindow \<Rightarrow> bool option \<Rightarrow> TimeWindow \<times> bool ret" where
  "TimeWindow_friday self friday =
     (case friday of
        Some v \<Rightarrow> (self\<lparr>tw_fri := v\<rparr>, This)
      | None \<Rightarrow> (self, Val (tw_fri self)))"

definition TimeWindow_saturday :: "TimeWindow \<Rightarrow> bool option \<Rightarrow> TimeWindow \<times> bool ret" where
  "TimeWindow_saturday self saturday =
     (case saturday of
        Some v \<Rightarrow> (self\<lparr>tw_sat := v\<rparr>, This)
      | None \<Rightarrow> (self, Val (tw_sat self)))"

definition TimeWindow_sunday :: "TimeWindow \<Rightarrow> bool option \<Rightarrow> TimeWindow \<times> bool ret" where
  "TimeWindow_sunday self sunday =
     (case sunday of
        Some v \<Rightarrow> (self\<lparr>tw_sun := v\<rparr>, This)
      | None \<Rightarrow> (self, Val (tw_sun self)))"

section \<open>TripPattern\<close>

text \<open>
  The geometry is a GeoJSON LineString; its \<^verbatim>\<open>coordinates\<close> array is what the code
  reads. \<open>None\<close> is the \<^verbatim>\<open>null\<close> the constructor stores.
\<close>

record TripPattern =
  tp_geometry :: "coord list option"
  tp_spacing :: "real option"
  tp_windows :: "TimeWindow list"
  tp_name :: string
  tp_reversed :: bool

definition TripPattern_constructor :: TripPattern where
  "TripPattern_constructor =
     \<lparr>tp_geometry = None, tp_spacing = None, tp_windows = [],
      tp_name = ''New trip pattern'', tp_reversed = False\<rparr>"

definition TripPattern_reverse :: "TripPattern \<Rightarrow> TripPattern" where
  "TripPattern_reverse self = self\<lparr>tp_reversed := \<not> tp_reversed self\<rparr>"

definition TripPattern_name :: "TripPattern \<Rightarrow> string option \<Rightarrow> TripPattern \<times> string ret" where
  "TripPattern_name self name =
     (case name of
        Some v \<Rightarrow> (self\<lparr>tp_name := v\<rparr>, This)
      | None \<Rightarrow> (self, of_arg name))"

definition TripPattern_geometry ::
  "TripPattern \<Rightarrow> coord list option \<Rightarrow> TripPattern \<times> coord list option ret" where
  "TripPattern_geometry self geometry =
     (case geometry of
        Some v \<Rightarrow> (self\<lparr>tp_geometry := Some v\<rparr>, This)
      | None \<Rightarrow> (self, Val (tp_geometry self)))"

definition TripPattern_spacing ::
  "TripPattern \<Rightarrow> real option \<Rightarrow> TripPattern \<times> real option ret" where
  "TripPattern_spacing self spacing =
     (case spacing of
        Some v \<Rightarrow> (self\<lparr>tp_spacing := Some v\<rparr>, This)
      | None \<Rightarrow> (self, Val (tp_spacing self)))"

definition TripPattern_addTimeWindow :: "TripPattern \<Rightarrow> TimeWindow \<Rightarrow> TripPattern" where
  "TripPattern_addTimeWindow self timeWindow =
     self\<lparr>tp_windows := tp_windows self @ [timeWindow]\<rparr>"

subsection \<open>make: placing the stops\<close>

text \<open>
  The local variables of \<^verbatim>\<open>make\<close> that the two nested loops update. An entry of
  \<^verbatim>\<open>newGeometry.coordinates\<close> is a pair of numbers or \<^verbatim>\<open>undefined\<close>.
\<close>

record 'n make_locals =
  accumulator :: 'n
  nextStop :: 'n
  stopIndices :: "bool list"
  nStops :: nat
  hops :: "'n list"
  newGeometry :: "('n \<times> 'n) option list"

text \<open>A coordinate of the builder's geometry, as the pair of numbers it denotes.\<close>

definition coord_num :: "'n arith \<Rightarrow> coord \<Rightarrow> 'n \<times> 'n" where
  "coord_num A c = (ar_num A (fst c), ar_num A (snd c))"

text \<open>
  One pass through the body of \<^verbatim>\<open>while (accumulator > nextStop)\<close>. \<open>spacing\<close> is the
  number in \<^verbatim>\<open>this._spacing\<close>.
\<close>

definition make_while_body ::
  "'n arith \<Rightarrow> 'n \<Rightarrow> 'n \<Rightarrow> coord \<Rightarrow> coord \<Rightarrow> 'n make_locals \<Rightarrow> 'n make_locals" where
  "make_while_body A spacing segLen c1 c2 st =
     (let frac = ar_div A (ar_sub A segLen (ar_sub A (accumulator st) (nextStop st))) segLen;
          x1 = ar_num A (fst c1); x2 = ar_num A (fst c2);
          y1 = ar_num A (snd c1); y2 = ar_num A (snd c2);
          interpolatedCoord =
            (ar_add A x1 (ar_mul A (ar_sub A x2 x1) frac),
             ar_add A y1 (ar_mul A (ar_sub A y2 y1) frac))
      in st\<lparr>nStops := nStops st + 1,
            newGeometry := newGeometry st @ [Some interpolatedCoord],
            stopIndices := stopIndices st @ [True],
            hops := hops st @ [spacing],
            nextStop := ar_add A (nextStop st) (ar_div A spacing (ar_num A 1000))\<rparr>)"

text \<open>The inner loop. It need not end: not returning is \<open>None\<close>.\<close>

partial_function (option) make_while ::
  "'n arith \<Rightarrow> 'n \<Rightarrow> 'n \<Rightarrow> coord \<Rightarrow> coord \<Rightarrow> 'n make_locals \<Rightarrow> 'n make_locals option" where
  "make_while A spacing segLen c1 c2 st =
     (if ar_gt A (accumulator st) (nextStop st)
      then make_while A spacing segLen c1 c2 (make_while_body A spacing segLen c1 c2 st)
      else Some st)"

declare make_while.simps [code]

text \<open>
  The outer loop \<^verbatim>\<open>for (let i = 1; i < coordinates.length; i++)\<close>, from index \<open>i\<close> on.
  \<open>distance\<close> is the great-circle distance in kilometres of the turf library.
\<close>

function make_for ::
  "'n arith \<Rightarrow> (coord \<Rightarrow> coord \<Rightarrow> 'n) \<Rightarrow> 'n \<Rightarrow> coord list \<Rightarrow> nat \<Rightarrow> 'n make_locals
     \<Rightarrow> 'n make_locals option" where
  "make_for A distance spacing coordinates i st =
     (if i < length coordinates then
        (let segLen = distance (coordinates ! (i - 1)) (coordinates ! i) in
         case make_while A spacing segLen (coordinates ! (i - 1)) (coordinates ! i)
                (st\<lparr>accumulator := ar_add A (accumulator st) segLen\<rparr>) of
           None \<Rightarrow> None
         | Some st' \<Rightarrow>
             make_for A distance spacing coordinates (i + 1)
               (st'\<lparr>newGeometry := newGeometry st' @ [Some (coord_num A (coordinates ! i))],
                    stopIndices := stopIndices st' @ [i = length coordinates - 1]\<rparr>))
      else Some st)"
  by pat_completeness auto
termination
  by (relation "measure (\<lambda>(A, distance, spacing, coordinates, i, st). length coordinates - i)")
     auto

text \<open>
  Lines 67 to 117 of \<^verbatim>\<open>make\<close>: the locals after the walk along the line, the final hop
  and the optional reversal.
\<close>

definition make_stops ::
  "'n arith \<Rightarrow> (coord \<Rightarrow> coord \<Rightarrow> 'n) \<Rightarrow> TripPattern \<Rightarrow> coord list \<Rightarrow> 'n make_locals option" where
  "make_stops A distance self coordinates =
     (let spacing = ar_num A (to_number (tp_spacing self));
          st0 = \<lparr>accumulator = ar_num A 0,
                 nextStop = ar_div A spacing (ar_num A 1000),
                 stopIndices = [True], nStops = 2, hops = [],
                 newGeometry = [map_option (coord_num A) (js_index coordinates 0)]\<rparr>
      in case make_for A distance spacing coordinates 1 st0 of
           None \<Rightarrow> None
         | Some st1 \<Rightarrow>
             (let st2 = st1\<lparr>hops := hops st1 @
                           [ar_mul A
                              (ar_sub A (accumulator st1)
                                 (ar_sub A (nextStop st1) (ar_div A spacing (ar_num A 1000))))
                              (ar_num A 1000)]\<rparr>
              in Some (if tp_reversed self
                       then st2\<lparr>hops := rev (hops st2),
                                newGeometry := rev (newGeometry st2),
                                stopIndices := rev (stopIndices st2)\<rparr>
                       else st2)))"

subsection \<open>make: the timetables and the document\<close>

record 'n timetable =
  tt_startTime :: "real ret"
  tt_endTime :: "real ret"
  tt_headwaySecs :: "real ret"
  tt_frequency :: bool
  tt_dwellTimes :: "real ret list"
  tt_hopTimes :: "'n list"
  tt_days :: "bool ret list"

record ('n, 'g) add_trip_pattern =
  atp_type :: string
  atp_name :: string
  atp_stops :: "bool list"
  atp_timetables :: "'n timetable list"
  atp_geometry :: 'g

text \<open>
  \<^verbatim>\<open>hops.map(v => (v / 1000) / period.speed() * 3600)\<close>: the callback calls the getter
  once for every hop.
\<close>

fun make_hopTimes :: "'n arith \<Rightarrow> TimeWindow \<Rightarrow> 'n list \<Rightarrow> TimeWindow \<times> 'n list" where
  "make_hopTimes A period [] = (period, [])"
| "make_hopTimes A period (v # vs) =
     (case TimeWindow_speed period None of
        (period1, speed) \<Rightarrow>
          (case make_hopTimes A period1 vs of
             (period2, ts) \<Rightarrow>
               (period2,
                ar_mul A (ar_div A (ar_div A v (ar_num A 1000)) (ret_number A speed))
                  (ar_num A 3600) # ts)))"

text \<open>
  The body of the loop over the time windows: the object literal, whose getter calls run
  in the order written, and the call of \<^verbatim>\<open>period.dwell()\<close> whose value is logged.
\<close>

definition make_timetable ::
  "'n arith \<Rightarrow> nat \<Rightarrow> 'n list \<Rightarrow> TimeWindow \<Rightarrow> TimeWindow \<times> (thrown + 'n timetable)" where
  "make_timetable A n hs period =
     (case TimeWindow_startTime period None of
        (p1, Inl e) \<Rightarrow> (p1, Inl e)
      | (p1, Inr startTime) \<Rightarrow>
     (case TimeWindow_endTime p1 None of
        (p2, Inl e) \<Rightarrow> (p2, Inl e)
      | (p2, Inr endTime) \<Rightarrow>
     (case TimeWindow_headway p2 None of (p3, headway) \<Rightarrow>
     (case TimeWindow_dwell p3 None of (p4, dwell) \<Rightarrow>
     (case make_hopTimes A p4 hs of (p5, hopTimes) \<Rightarrow>
     (case TimeWindow_monday p5 None of (p6, monday) \<Rightarrow>
     (case TimeWindow_tuesday p6 None of (p7, tuesday) \<Rightarrow>
     (case TimeWindow_wednesday p7 None of (p8, wednesday) \<Rightarrow>
     (case TimeWindow_thursday p8 None of (p9, thursday) \<Rightarrow>
     (case TimeWindow_friday p9 None of (p10, friday) \<Rightarrow>
     (case TimeWindow_saturday p10 None of (p11, saturday) \<Rightarrow>
     (case TimeWindow_sunday p11 None of (p12, sunday) \<Rightarrow>
     (case TimeWindow_dwell p12 None of (p13, logged) \<Rightarrow>
        (p13, Inr \<lparr>tt_startTime = startTime, tt_endTime = endTime,
                   tt_headwaySecs = headway, tt_frequency = True,
                   tt_dwellTimes = replicate n dwell,
                   tt_hopTimes = hopTimes,
                   tt_days = [monday, tuesday, wednesday, thursday, friday,
                              saturday, sunday]\<rparr>))))))))))))))"

text \<open>
  \<^verbatim>\<open>for (let i = 0; i < this._windows.length; i++)\<close>, over the windows still to visit.
  The windows are returned as the calls left them.
\<close>

fun make_timetables ::
  "'n arith \<Rightarrow> nat \<Rightarrow> 'n list \<Rightarrow> TimeWindow list
     \<Rightarrow> TimeWindow list \<times> (thrown + 'n timetable list)" where
  "make_timetables A n hs [] = ([], Inr [])"
| "make_timetables A n hs (period # rest) =
     (case make_timetable A n hs period of
        (period1, Inl e) \<Rightarrow> (period1 # rest, Inl e)
      | (period1, Inr t) \<Rightarrow>
          (case make_timetables A n hs rest of
             (rest1, Inl e) \<Rightarrow> (period1 # rest1, Inl e)
           | (rest1, Inr ts) \<Rightarrow> (period1 # rest1, Inr (t # ts))))"

text \<open>
  \<^verbatim>\<open>newGeometry.coordinates.map(c => [c[1], c[0]])\<close>: reading \<^verbatim>\<open>c[1]\<close> of an
  \<^verbatim>\<open>undefined\<close> element raises a TypeError.
\<close>

fun make_latlon :: "('n \<times> 'n) option list \<Rightarrow> thrown + ('n \<times> 'n) list" where
  "make_latlon [] = Inr []"
| "make_latlon (None # cs) = Inl TypeError"
| "make_latlon (Some c # cs) =
     (case make_latlon cs of
        Inl e \<Rightarrow> Inl e
      | Inr ps \<Rightarrow> Inr ((snd c, fst c) # ps))"

text \<open>
  \<^verbatim>\<open>make\<close>. \<open>encode\<close> is \<^verbatim>\<open>polyline.encode\<close>. The result is \<open>None\<close> when the call
  does not return; otherwise it is the builder after the call with what the call threw or
  returned. Reading \<^verbatim>\<open>this._geometry.coordinates\<close> of the \<^verbatim>\<open>null\<close> geometry raises a
  TypeError.
\<close>

definition TripPattern_make ::
  "'n arith \<Rightarrow> (coord \<Rightarrow> coord \<Rightarrow> 'n) \<Rightarrow> (('n \<times> 'n) list \<Rightarrow> 'g) \<Rightarrow> TripPattern
     \<Rightarrow> (TripPattern \<times> (thrown + ('n, 'g) add_trip_pattern)) option" where
  "TripPattern_make A distance encode self =
     (case tp_geometry self of
        None \<Rightarrow> Some (self, Inl TypeError)
      | Some coordinates \<Rightarrow>
          (case make_stops A distance self coordinates of
             None \<Rightarrow> None
           | Some st \<Rightarrow>
               (case make_timetables A (nStops st) (hops st) (tp_windows self) of
                  (windows, Inl e) \<Rightarrow> Some (self\<lparr>tp_windows := windows\<rparr>, Inl e)
                | (windows, Inr timetables) \<Rightarrow>
                    (case make_latlon (newGeometry st) of
                       Inl e \<Rightarrow> Some (self\<lparr>tp_windows := windows\<rparr>, Inl e)
                     | Inr latlon \<Rightarrow>
                         Some (self\<lparr>tp_windows := windows\<rparr>,
                               Inr \<lparr>atp_type = ''add-trip-pattern'',
                                    atp_name = tp_name self,
                                    atp_stops = stopIndices st,
                                    atp_timetables = timetables,
                                    atp_geometry = encode latlon\<rparr>)))))"

section \<open>RemoveTrip\<close>

record RemoveTrip =
  rt_agencyId :: "string option"
  rt_routeId :: "string list option"
  rt_tripId :: "string list option"
  rt_routeType :: "int list option"

record remove_trip =
  rtd_type :: string
  rtd_agencyId :: "string option"
  rtd_routeId :: "string list option"
  rtd_tripId :: "string list option"
  rtd_routeType :: "int list option"

definition RemoveTrip_constructor :: RemoveTrip where
  "RemoveTrip_constructor =
     \<lparr>rt_agencyId = None, rt_routeId = None, rt_tripId = None, rt_routeType = None\<rparr>"

definition RemoveTrip_agency ::
  "RemoveTrip \<Rightarrow> string option \<Rightarrow> RemoveTrip \<times> string option ret" where
  "RemoveTrip_agency self agency =
     (case agency of
        Some v \<Rightarrow> (self\<lparr>rt_agencyId := Some v\<rparr>, This)
      | None \<Rightarrow> (self, Val (rt_agencyId self)))"

definition RemoveTrip_addRoute :: "RemoveTrip \<Rightarrow> string \<Rightarrow> RemoveTrip" where
  "RemoveTrip_addRoute self route =
     (case rt_routeId self of
        None \<Rightarrow> self\<lparr>rt_routeId := Some [route]\<rparr>
      | Some rs \<Rightarrow> self\<lparr>rt_routeId := Some (rs @ [route])\<rparr>)"

definition RemoveTrip_addTrip :: "RemoveTrip \<Rightarrow> string \<Rightarrow> RemoveTrip" where
  "RemoveTrip_addTrip self trip =
     (case rt_tripId self of
        None \<Rightarrow> self\<lparr>rt_tripId := Some [trip]\<rparr>
      | Some ts \<Rightarrow> self\<lparr>rt_tripId := Some (ts @ [trip])\<rparr>)"

definition RemoveTrip_addType :: "RemoveTrip \<Rightarrow> int \<Rightarrow> RemoveTrip" where
  "RemoveTrip_addType self type =
     (case rt_routeType self of
        None \<Rightarrow> self\<lparr>rt_routeType := Some [type]\<rparr>
      | Some ts \<Rightarrow> self\<lparr>rt_routeType := Some (ts @ [type])\<rparr>)"

definition RemoveTrip_make :: "RemoveTrip \<Rightarrow> RemoveTrip \<times> remove_trip" where
  "RemoveTrip_make self =
     (self,
      \<lparr>rtd_type = ''remove-trip'',
       rtd_agencyId = rt_agencyId self,
       rtd_routeId = rt_routeId self,
       rtd_tripId = rt_tripId self,
       rtd_routeType = rt_routeType self\<rparr>)"

section \<open>ConvertToFrequency\<close>

record ConvertToFrequency =
  cf_routeId :: "string list"
  cf_windowStart :: real
  cf_windowEnd :: real
  cf_groupBy :: string

record convert_to_frequency =
  cfd_type :: string
  cfd_windowStart :: real
  cfd_windowEnd :: real
  cfd_groupBy :: string
  cfd_routeId :: "string list option"

definition ConvertToFrequency_constructor :: ConvertToFrequency where
  "ConvertToFrequency_constructor =
     \<lparr>cf_routeId = [], cf_windowStart = 0, cf_windowEnd = 24 * 3600,
      cf_groupBy = ''ROUTE_DIRECTION''\<rparr>"

definition ConvertToFrequency_addRoute :: "ConvertToFrequency \<Rightarrow> string \<Rightarrow> ConvertToFrequency" where
  "ConvertToFrequency_addRoute self route = self\<lparr>cf_routeId := cf_routeId self @ [route]\<rparr>"

definition ConvertToFrequency_windowStart ::
  "ConvertToFrequency \<Rightarrow> real option \<Rightarrow> ConvertToFrequency \<times> real ret" where
  "ConvertToFrequency_windowStart self windowStart =
     (case windowStart of
        Some v \<Rightarrow> (self\<lparr>cf_windowStart := v\<rparr>, This)
      | None \<Rightarrow> (self, Val (cf_windowStart self)))"

definition ConvertToFrequency_windowEnd ::
  "ConvertToFrequency \<Rightarrow> real option \<Rightarrow> ConvertToFrequency \<times> real ret" where
  "ConvertToFrequency_windowEnd self windowEnd =
     (case windowEnd of
        Some v \<Rightarrow> (self\<lparr>cf_windowEnd := v\<rparr>, This)
      | None \<Rightarrow> (self, Val (cf_windowEnd self)))"

definition ConvertToFrequency_groupBy ::
  "ConvertToFrequency \<Rightarrow> string option \<Rightarrow> ConvertToFrequency \<times> string ret" where
  "ConvertToFrequency_groupBy self groupBy =
     (case groupBy of
        Some v \<Rightarrow> (self\<lparr>cf_groupBy := v\<rparr>, This)
      | None \<Rightarrow> (self, Val (cf_groupBy self)))"

text \<open>
  The document's \<^verbatim>\<open>routeId\<close> is a list or \<^verbatim>\<open>null\<close> in the other builders; here the
  field is always a list, which the document holds as \<open>Some\<close>.
\<close>

definition ConvertToFrequency_make ::
  "ConvertToFrequency \<Rightarrow> ConvertToFrequency \<times> convert_to_frequency" where
  "ConvertToFrequency_make self =
     (self,
      \<lparr>cfd_type = ''convert-to-frequency'',
       cfd_windowStart = cf_windowStart self,
       cfd_windowEnd = cf_windowEnd self,
       cfd_groupBy = cf_groupBy self,
       cfd_routeId = Some (cf_routeId self)\<rparr>)"

section \<open>AdjustHeadway\<close>

record AdjustHeadway =
  ah_agencyId :: "string option"
  ah_routeId :: "string list option"
  ah_tripId :: "string list option"
  ah_routeType :: "int list option"
  ah_headway :: real

record adjust_headway =
  ahd_type :: string
  ahd_agencyId :: "string option"
  ahd_routeId :: "string list option"
  ahd_tripId :: "string list option"
  ahd_routeType :: "int list option"
  ahd_headway :: real

definition AdjustHeadway_constructor :: AdjustHeadway where
  "AdjustHeadway_constructor =
     \<lparr>ah_agencyId = None, ah_routeId = None, ah_tripId = None, ah_routeType = None,
      ah_headway = 600\<rparr>"

definition AdjustHeadway_agency ::
  "AdjustHeadway \<Rightarrow> string option \<Rightarrow> AdjustHeadway \<times> string option ret" where
  "AdjustHeadway_agency self agency =
     (case agency of
        Some v \<Rightarrow> (self\<lparr>ah_agencyId := Some v\<rparr>, This)
      | None \<Rightarrow> (self, Val (ah_agencyId self)))"

definition AdjustHeadway_addRoute :: "AdjustHeadway \<Rightarrow> string \<Rightarrow> AdjustHeadway" where
  "AdjustHeadway_addRoute self route =
     (case ah_routeId self of
        None \<Rightarrow> self\<lparr>ah_routeId := Some [route]\<rparr>
      | Some rs \<Rightarrow> self\<lparr>ah_routeId := Some (rs @ [route])\<rparr>)"

definition AdjustHeadway_addTrip :: "AdjustHeadway \<Rightarrow> string \<Rightarrow> AdjustHeadway" where
  "AdjustHeadway_addTrip self trip =
     (case ah_tripId self of
        None \<Rightarrow> self\<lparr>ah_tripId := Some [trip]\<rparr>
      | Some ts \<Rightarrow> self\<lparr>ah_tripId := Some (ts @ [trip])\<rparr>)"

definition AdjustHeadway_addType :: "AdjustHeadway \<Rightarrow> int \<Rightarrow> AdjustHeadway" where
  "AdjustHeadway_addType self type =
     (case ah_routeType self of
        None \<Rightarrow> self\<lparr>ah_routeType := Some [type]\<rparr>
      | Some ts \<Rightarrow> self\<lparr>ah_routeType := Some (ts @ [type])\<rparr>)"

definition AdjustHeadway_headway ::
  "AdjustHeadway \<Rightarrow> real option \<Rightarrow> AdjustHeadway \<times> real ret" where
  "AdjustHeadway_headway self headway =
     (case headway of
        Some v \<Rightarrow> (self\<lparr>ah_headway := v\<rparr>, This)
      | None \<Rightarrow> (self, Val (ah_headway self)))"

definition AdjustHeadway_make :: "AdjustHeadway \<Rightarrow> AdjustHeadway \<times> adjust_headway" where
  "AdjustHeadway_make self =
     (self,
      \<lparr>ahd_type = ''adjust-headway'',
       ahd_agencyId = ah_agencyId self,
       ahd_routeId = ah_routeId self,
       ahd_tripId = ah_tripId self,
       ahd_routeType = ah_routeType self,
       ahd_headway = ah_headway self\<rparr>)"

section \<open>Notions used to state the properties\<close>




text \<open>The timetable that a time window yields, read off its fields.\<close>

definition timetable_of :: "'n arith \<Rightarrow> nat \<Rightarrow> 'n list \<Rightarrow> TimeWindow \<Rightarrow> 'n timetable" where
  "timetable_of A n hs period =
     \<lparr>tt_startTime = Val (tw_start period), tt_endTime = Val (tw_end period),
      tt_headwaySecs = Val (tw_headway period), tt_frequency = True,
      tt_dwellTimes = replicate n (Val (tw_dwell period)),
      tt_hopTimes = map (\<lambda>v. ar_mul A (ar_div A (ar_div A v (ar_num A 1000))
                                          (ar_num A (tw_speed period)))
                                 (ar_num A 3600)) hs,
      tt_days = [Val (tw_mon period), Val (tw_tue period), Val (tw_wed period),
                 Val (tw_thurs period), Val (tw_fri period), Val (tw_sat period),
                 Val (tw_sun period)]\<rparr>"

subsection \<open>Sample inputs\<close>

text \<open>
  The theorems hold for every arithmetic, every distance function and every encoder. To
  run the model on an input, the arithmetic taken is that of the real numbers extended by
  the two infinities and \<^verbatim>\<open>NaN\<close>, without rounding and with a single zero; the
  distance between two coordinates is measured along the axes; the encoder is the identity.
\<close>

datatype jsnum = Finite real | PosInfinity | NegInfinity | NaN

fun js_plus :: "jsnum \<Rightarrow> jsnum \<Rightarrow> jsnum" where
  "js_plus (Finite a) (Finite b) = Finite (a + b)"
| "js_plus (Finite a) PosInfinity = PosInfinity"
| "js_plus (Finite a) NegInfinity = NegInfinity"
| "js_plus PosInfinity (Finite b) = PosInfinity"
| "js_plus NegInfinity (Finite b) = NegInfinity"
| "js_plus PosInfinity PosInfinity = PosInfinity"
| "js_plus NegInfinity NegInfinity = NegInfinity"
| "js_plus x y = NaN"

fun js_minus :: "jsnum \<Rightarrow> jsnum \<Rightarrow> jsnum" where
  "js_minus (Finite a) (Finite b) = Finite (a - b)"
| "js_minus (Finite a) PosInfinity = NegInfinity"
| "js_minus (Finite a) NegInfinity = PosInfinity"
| "js_minus PosInfinity (Finite b) = PosInfinity"
| "js_minus NegInfinity (Finite b) = NegInfinity"
| "js_minus PosInfinity NegInfinity = PosInfinity"
| "js_minus NegInfinity PosInfinity = NegInfinity"
| "js_minus x y = NaN"

fun js_times :: "jsnum \<Rightarrow> jsnum \<Rightarrow> jsnum" where
  "js_times (Finite a) (Finite b) = Finite (a * b)"
| "js_times PosInfinity (Finite b) =
     (if 0 < b then PosInfinity else if b < 0 then NegInfinity else NaN)"
| "js_times NegInfinity (Finite b) =
     (if 0 < b then NegInfinity else if b < 0 then PosInfinity else NaN)"
| "js_times (Finite a) PosInfinity =
     (if 0 < a then PosInfinity else if a < 0 then NegInfinity else NaN)"
| "js_times (Finite a) NegInfinity =
     (if 0 < a then NegInfinity else if a < 0 then PosInfinity else NaN)"
| "js_times PosInfinity PosInfinity = PosInfinity"
| "js_times NegInfinity NegInfinity = PosInfinity"
| "js_times PosInfinity NegInfinity = NegInfinity"
| "js_times NegInfinity PosInfinity = NegInfinity"
| "js_times x y = NaN"

fun js_div :: "jsnum \<Rightarrow> jsnum \<Rightarrow> jsnum" where
  "js_div (Finite a) (Finite b) =
     (if b \<noteq> 0 then Finite (a / b)
      else if 0 < a then PosInfinity
      else if a < 0 then NegInfinity
      else NaN)"
| "js_div (Finite a) PosInfinity = Finite 0"
| "js_div (Finite a) NegInfinity = Finite 0"
| "js_div PosInfinity (Finite b) = (if 0 \<le> b then PosInfinity else NegInfinity)"
| "js_div NegInfinity (Finite b) = (if 0 \<le> b then NegInfinity else PosInfinity)"
| "js_div x y = NaN"

fun js_greater :: "jsnum \<Rightarrow> jsnum \<Rightarrow> bool" where
  "js_greater (Finite a) (Finite b) = (b < a)"
| "js_greater PosInfinity (Finite b) = True"
| "js_greater PosInfinity NegInfinity = True"
| "js_greater (Finite a) NegInfinity = True"
| "js_greater x y = False"

definition unrounded :: "jsnum arith" where
  "unrounded =
     \<lparr>ar_num = Finite, ar_nan = NaN, ar_add = js_plus, ar_sub = js_minus,
      ar_mul = js_times, ar_div = js_div, ar_gt = js_greater\<rparr>"

definition sample_distance :: "coord \<Rightarrow> coord \<Rightarrow> jsnum" where
  "sample_distance a b = Finite (\<bar>fst b - fst a\<bar> + \<bar>snd b - snd a\<bar>)"

text \<open>\<^verbatim>\<open>new TripPattern().geometry(...).spacing(400).addTimeWindow(new TimeWindow())\<close>\<close>

definition sample_line :: TripPattern where
  "sample_line =
     TripPattern_addTimeWindow
       (fst (TripPattern_spacing
          (fst (TripPattern_geometry TripPattern_constructor (Some [(0, 0), (0, 1)])))
          (Some 400)))
       TimeWindow_constructor"

text \<open>A geometry of a single coordinate.\<close>

definition one_point_line :: TripPattern where
  "one_point_line =
     fst (TripPattern_spacing
       (fst (TripPattern_geometry TripPattern_constructor (Some [(0, 0)])))
       (Some 400))"

text \<open>The same, served in a time window of speed zero.\<close>

definition stalled_point_line :: TripPattern where
  "stalled_point_line =
     TripPattern_addTimeWindow one_point_line
       (fst (TimeWindow_speed TimeWindow_constructor (Some 0)))"

section \<open>The loops of make\<close>

declare make_for.simps [simp del]

text \<open>
  A property of the locals that every pass through the body of the inner loop keeps,
  whatever the arithmetic, holds when the loop is left.
\<close>

lemma make_while_keeps:
  assumes "make_while A spacing segLen c1 c2 st = Some st'"
    and "\<And>A spacing segLen c1 c2 s. P s \<Longrightarrow> P (make_while_body A spacing segLen c1 c2 s)"
  shows "P st \<Longrightarrow> P st'"
  using assms(1)
proof (induction rule: make_while.raw_induct [rotated 1, consumes 1])
  case (1 f A spacing segLen c1 c2 st st')
  show ?case
  proof (cases "ar_gt A (accumulator st) (nextStop st)")
    case True
    with 1(2) have "f A spacing segLen c1 c2 (make_while_body A spacing segLen c1 c2 st) = Some st'"
      by simp
    then have "f A spacing segLen (fst c1, snd c1) (fst c2, snd c2)
                 (make_while_body A spacing segLen c1 c2 st) = Some st'"
      by simp
    from 1(1) [OF this] assms(2) [OF 1(3)] show ?thesis
      by simp
  next
    case False
    with 1 show ?thesis by simp
  qed
qed



lemma make_for_newGeometry:
  "make_for A distance spacing cs i st = Some st' \<Longrightarrow> None \<notin> set (newGeometry st) \<Longrightarrow>
   None \<notin> set (newGeometry st')"
proof (induction A distance spacing cs i st rule: make_for.induct)
  case (1 A distance spacing coordinates i st)
  show ?case
  proof (cases "i < length coordinates")
    case False
    with "1.prems" show ?thesis by (simp add: make_for.simps)
  next
    case True
    let ?segLen = "distance (coordinates ! (i - 1)) (coordinates ! i)"
    let ?st = "st\<lparr>accumulator := ar_add A (accumulator st) ?segLen\<rparr>"
    from "1.prems"(1) True obtain sw where
      w: "make_while A spacing ?segLen (coordinates ! (i - 1)) (coordinates ! i) ?st = Some sw"
      and f: "make_for A distance spacing coordinates (i + 1)
               (sw\<lparr>newGeometry := newGeometry sw @ [Some (coord_num A (coordinates ! i))],
                    stopIndices := stopIndices sw @ [i = length coordinates - 1]\<rparr>) = Some st'"
      by (subst (asm) make_for.simps) (auto simp: Let_def split: option.splits)
    have "None \<notin> set (newGeometry ?st)" using "1.prems"(2) by simp
    then have "None \<notin> set (newGeometry sw)"
      by (rule make_while_keeps [OF w, where P = "\<lambda>s. None \<notin> set (newGeometry s)", rotated])
         (simp add: make_while_body_def Let_def)
    then show ?thesis
      using "1.IH" [OF True refl w f] by simp
  qed
qed

text \<open>The locals that \<open>make_stops\<close> returns, spelled out.\<close>

lemma make_stops_Some:
  assumes "make_stops A distance self cs = Some st"
  shows "\<exists>st1.
    make_for A distance (ar_num A (to_number (tp_spacing self))) cs 1
       \<lparr>accumulator = ar_num A 0,
        nextStop = ar_div A (ar_num A (to_number (tp_spacing self))) (ar_num A 1000),
        stopIndices = [True], nStops = 2, hops = [],
        newGeometry = [map_option (coord_num A) (js_index cs 0)]\<rparr> = Some st1 \<and>
    stopIndices st = (if tp_reversed self then rev (stopIndices st1) else stopIndices st1) \<and>
    newGeometry st = (if tp_reversed self then rev (newGeometry st1) else newGeometry st1) \<and>
    nStops st = nStops st1 \<and>
    length (hops st) = length (hops st1) + 1"
  using assms
  by (cases "tp_reversed self") (auto simp: make_stops_def Let_def split: option.splits)


lemma make_stops_newGeometry:
  assumes "make_stops A distance self cs = Some st" and "cs \<noteq> []"
  shows "None \<notin> set (newGeometry st)"
proof -
  from assms(1) obtain st1 where
    f: "make_for A distance (ar_num A (to_number (tp_spacing self))) cs 1
       \<lparr>accumulator = ar_num A 0,
        nextStop = ar_div A (ar_num A (to_number (tp_spacing self))) (ar_num A 1000),
        stopIndices = [True], nStops = 2, hops = [],
        newGeometry = [map_option (coord_num A) (js_index cs 0)]\<rparr> = Some st1"
    and g: "newGeometry st = (if tp_reversed self then rev (newGeometry st1) else newGeometry st1)"
    using make_stops_Some [OF assms(1)] by blast
  have "None \<notin> set (newGeometry st1)"
    by (rule make_for_newGeometry [OF f]) (use assms(2) in \<open>simp add: js_index_def\<close>)
  then show ?thesis using g by simp
qed

lemma make_stops_windows:
  "make_stops A distance (self\<lparr>tp_windows := ws\<rparr>) cs = make_stops A distance self cs"
  by (simp add: make_stops_def Let_def split: option.splits)

section \<open>The timetables\<close>

lemma make_hopTimes_eq:
  "make_hopTimes A period hs =
     (period, map (\<lambda>v. ar_mul A (ar_div A (ar_div A v (ar_num A 1000))
                                   (ar_num A (tw_speed period)))
                          (ar_num A 3600)) hs)"
  by (induction hs) (simp_all add: TimeWindow_speed_def)

lemma make_timetable_eq:
  "make_timetable A n hs period = (period, Inr (timetable_of A n hs period))"
  by (simp add: make_timetable_def timetable_of_def make_hopTimes_eq
      TimeWindow_startTime_def TimeWindow_endTime_def TimeWindow_headway_def
      TimeWindow_dwell_def TimeWindow_monday_def TimeWindow_tuesday_def
      TimeWindow_wednesday_def TimeWindow_thursday_def TimeWindow_friday_def
      TimeWindow_saturday_def TimeWindow_sunday_def)

lemma make_timetables_eq:
  "make_timetables A n hs windows = (windows, Inr (map (timetable_of A n hs) windows))"
  by (induction windows) (simp_all add: make_timetable_eq)


lemma make_latlon_throws: "make_latlon cs = Inl e \<Longrightarrow> None \<in> set cs"
  by (induction cs rule: make_latlon.induct) (auto split: sum.splits)

lemma make_latlon_TypeError: "make_latlon cs = Inl e \<Longrightarrow> e = TypeError"
  by (induction cs rule: make_latlon.induct) (auto split: sum.splits)

section \<open>What make returns\<close>

lemma make_frame:
  "TripPattern_make A distance encode self = Some (self', r) \<Longrightarrow> self' = self"
  by (auto simp: TripPattern_make_def make_timetables_eq split: option.splits sum.splits)

lemma make_name:
  "TripPattern_make A distance encode self = Some (self', Inr doc) \<Longrightarrow>
   atp_name doc = tp_name self"
  by (auto simp: TripPattern_make_def make_timetables_eq split: option.splits sum.splits)

lemma make_throws:
  assumes "TripPattern_make A distance encode self = Some (self', Inl e)"
  shows "e = TypeError \<and> (tp_geometry self = None \<or> tp_geometry self = Some [])"
proof (cases "tp_geometry self")
  case None
  with assms show ?thesis by (simp add: TripPattern_make_def)
next
  case (Some cs)
  with assms obtain st where st: "make_stops A distance self cs = Some st"
    and l: "make_latlon (newGeometry st) = Inl e"
    by (auto simp: TripPattern_make_def make_timetables_eq split: option.splits sum.splits)
  from l have n: "None \<in> set (newGeometry st)" by (rule make_latlon_throws)
  have "cs = []" using make_stops_newGeometry [OF st] n by blast
  moreover have "e = TypeError"
    using l by (rule make_latlon_TypeError)
  ultimately show ?thesis using Some by simp
qed

lemma make_no_coordinates:
  assumes "tp_geometry self = None \<or> tp_geometry self = Some []"
  shows "TripPattern_make A distance encode self = Some (self, Inl TypeError)"
  using assms
  by (auto simp: TripPattern_make_def make_stops_def make_for.simps js_index_def Let_def
      make_timetables_eq)

lemma make_one_point:
  assumes "tp_geometry self = Some [c]"
  shows "\<exists>doc. TripPattern_make A distance encode self = Some (self, Inr doc)"
  using assms
  by (simp add: TripPattern_make_def make_stops_def make_for.simps js_index_def Let_def
      make_timetables_eq)


text \<open>The time windows have no part in whether the call returns, throws or runs on.\<close>

lemma make_windows_None:
  "TripPattern_make A distance encode (self\<lparr>tp_windows := ws\<rparr>) = None \<longleftrightarrow>
   TripPattern_make A distance encode self = None"
  by (auto simp: TripPattern_make_def make_stops_windows make_timetables_eq
      split: option.splits sum.splits)

lemma make_windows_doc:
  "(\<exists>s doc. TripPattern_make A distance encode (self\<lparr>tp_windows := ws\<rparr>) = Some (s, Inr doc)) \<longleftrightarrow>
   (\<exists>s doc. TripPattern_make A distance encode self = Some (s, Inr doc))"
  by (auto simp: TripPattern_make_def make_stops_windows make_timetables_eq
      split: option.splits sum.splits)

subsection \<open>The model run on the sample inputs\<close>

lemma sample_stops:
  assumes "tp_spacing self = Some 400" "\<not> tp_reversed self"
  shows "make_stops unrounded sample_distance self [(0, 0), (0, 1)] =
   Some \<lparr>accumulator = Finite 1, nextStop = Finite (6 / 5),
         stopIndices = [True, True, True, True], nStops = 4,
         hops = [Finite 400, Finite 400, Finite 200],
         newGeometry = [Some (Finite 0, Finite 0), Some (Finite 0, Finite (2 / 5)),
                        Some (Finite 0, Finite (4 / 5)), Some (Finite 0, Finite 1)]\<rparr>"
  using assms
  by (simp add: make_stops_def numeral_2_eq_2 Let_def make_for.simps make_while.simps
      sample_distance_def make_while_body_def js_index_def unrounded_def coord_num_def)

lemma sample_line_eq:
  "sample_line =
     \<lparr>tp_geometry = Some [(0, 0), (0, 1)], tp_spacing = Some 400,
      tp_windows = [TimeWindow_constructor], tp_name = ''New trip pattern'',
      tp_reversed = False\<rparr>"
  by (simp add: sample_line_def TripPattern_addTimeWindow_def TripPattern_spacing_def
      TripPattern_geometry_def TripPattern_constructor_def)

lemma one_point_line_eq:
  "one_point_line =
     \<lparr>tp_geometry = Some [(0, 0)], tp_spacing = Some 400,
      tp_windows = [], tp_name = ''New trip pattern'',
      tp_reversed = False\<rparr>"
  by (simp add: one_point_line_def TripPattern_spacing_def
      TripPattern_geometry_def TripPattern_constructor_def)

lemma stalled_point_line_eq:
  "stalled_point_line =
     \<lparr>tp_geometry = Some [(0, 0)], tp_spacing = Some 400,
      tp_windows = [TimeWindow_constructor\<lparr>tw_speed := 0\<rparr>],
      tp_name = ''New trip pattern'', tp_reversed = False\<rparr>"
  by (simp add: stalled_point_line_def one_point_line_eq TripPattern_addTimeWindow_def
      TimeWindow_speed_def)

lemma sample_make:
  assumes "tp_geometry self = Some [(0, 0), (0, 1)]" "tp_spacing self = Some 400"
    "\<not> tp_reversed self" "tp_windows self = [TimeWindow_constructor]"
  shows "TripPattern_make unrounded sample_distance id self =
     Some (self,
       Inr \<lparr>atp_type = ''add-trip-pattern'', atp_name = tp_name self,
            atp_stops = [True, True, True, True],
            atp_timetables =
              [\<lparr>tt_startTime = Val 0, tt_endTime = Val 86399, tt_headwaySecs = Val 600,
                tt_frequency = True, tt_dwellTimes = [Val 0, Val 0, Val 0, Val 0],
                tt_hopTimes = [Finite 96, Finite 96, Finite 48],
                tt_days = [Val True, Val True, Val True, Val True, Val True, Val True,
                           Val True]\<rparr>],
            atp_geometry = [(Finite 0, Finite 0), (Finite (2 / 5), Finite 0),
                            (Finite (4 / 5), Finite 0), (Finite 1, Finite 0)]\<rparr>)"
  using assms
  apply (simp add: TripPattern_make_def sample_stops make_timetables_eq timetable_of_def
      TimeWindow_constructor_def numeral_eq_Suc)
  apply (simp add: unrounded_def)
  done

lemma one_point_make:
  "TripPattern_make unrounded sample_distance id one_point_line =
     Some (one_point_line,
       Inr \<lparr>atp_type = ''add-trip-pattern'', atp_name = ''New trip pattern'',
            atp_stops = [True], atp_timetables = [],
            atp_geometry = [(Finite 0, Finite 0)]\<rparr>)"
  by (simp add: TripPattern_make_def make_stops_def one_point_line_eq make_for.simps
      js_index_def Let_def unrounded_def coord_num_def)

lemma stalled_point_make:
  "TripPattern_make unrounded sample_distance id stalled_point_line =
     Some (stalled_point_line,
       Inr \<lparr>atp_type = ''add-trip-pattern'', atp_name = ''New trip pattern'',
            atp_stops = [True],
            atp_timetables =
              [\<lparr>tt_startTime = Val 0, tt_endTime = Val 86399, tt_headwaySecs = Val 600,
                tt_frequency = True, tt_dwellTimes = [Val 0, Val 0],
                tt_hopTimes = [NaN],
                tt_days = [Val True, Val True, Val True, Val True, Val True, Val True,
                           Val True]\<rparr>],
            atp_geometry = [(Finite 0, Finite 0)]\<rparr>)"
  by (simp add: TripPattern_make_def make_stops_def stalled_point_line_eq make_for.simps
      js_index_def Let_def unrounded_def coord_num_def make_timetables_eq timetable_of_def
      TimeWindow_constructor_def numeral_eq_Suc)

section \<open>The properties\<close>



text \<open>
  C4. Calling \<^verbatim>\<open>reverse\<close> twice and then \<^verbatim>\<open>make\<close> has the outcome of calling
  \<^verbatim>\<open>make\<close> alone: the same document, the same builder.
\<close>

theorem reverse_twice_make:
  "TripPattern_make A distance encode (TripPattern_reverse (TripPattern_reverse self)) =
     TripPattern_make A distance encode self"
  by (simp add: TripPattern_reverse_def)

text \<open>
  C5. \<^verbatim>\<open>make\<close> leaves the builder as it found it (geometry, spacing, windows, name and
  reversed flag), so a second call returns what the first returned.
\<close>

theorem make_leaves_builder:
  assumes "TripPattern_make A distance encode self = Some (self', r)"
  shows "self' = self \<and> TripPattern_make A distance encode self' = Some (self', r)"
  using assms make_frame [OF assms] by simp

theorem make_leaves_builder_witness:
  "\<exists>self' r. TripPattern_make unrounded sample_distance id sample_line = Some (self', r) \<and>
     self' = sample_line \<and>
     TripPattern_make unrounded sample_distance id self' = Some (self', r)"
proof -
  obtain r where m: "TripPattern_make unrounded sample_distance id sample_line =
                       Some (sample_line, r)"
    using sample_make [of sample_line] by (simp add: sample_line_eq)
  from make_leaves_builder [OF m] m show ?thesis by blast
qed



text \<open>
  C3, as the code has it. \<^verbatim>\<open>make\<close> validates nothing. It raises exactly when the geometry
  is unset or has no coordinates, and what is raised is the engine's TypeError. A geometry of
  one coordinate yields a document. The time windows, and with them the speeds, have no part
  in whether the call returns a document or does not return. A non-positive spacing is not
  rejected either: the call returns a document or does not return.
\<close>

theorem make_raises_only_without_coordinates:
  "((\<exists>self' e. TripPattern_make A distance encode self = Some (self', Inl e)) \<longleftrightarrow>
      (tp_geometry self = None \<or> tp_geometry self = Some [])) \<and>
   (TripPattern_make A distance encode self = Some (self', Inl e) \<longrightarrow> e = TypeError) \<and>
   (tp_geometry self = Some [c] \<longrightarrow>
      (\<exists>doc. TripPattern_make A distance encode self = Some (self, Inr doc))) \<and>
   ((\<exists>s doc. TripPattern_make A distance encode (self\<lparr>tp_windows := ws\<rparr>) = Some (s, Inr doc)) \<longleftrightarrow>
      (\<exists>s doc. TripPattern_make A distance encode self = Some (s, Inr doc))) \<and>
   (TripPattern_make A distance encode (self\<lparr>tp_windows := ws\<rparr>) = None \<longleftrightarrow>
      TripPattern_make A distance encode self = None)"
proof (intro conjI impI)
  show "(\<exists>self' e. TripPattern_make A distance encode self = Some (self', Inl e)) \<longleftrightarrow>
          (tp_geometry self = None \<or> tp_geometry self = Some [])"
    using make_throws [of A distance encode self] make_no_coordinates [of self A distance encode]
    by blast
next
  assume "TripPattern_make A distance encode self = Some (self', Inl e)"
  then show "e = TypeError" using make_throws by blast
next
  assume "tp_geometry self = Some [c]"
  then show "\<exists>doc. TripPattern_make A distance encode self = Some (self, Inr doc)"
    by (rule make_one_point)
next
  show "(\<exists>s doc. TripPattern_make A distance encode (self\<lparr>tp_windows := ws\<rparr>) = Some (s, Inr doc)) \<longleftrightarrow>
          (\<exists>s doc. TripPattern_make A distance encode self = Some (s, Inr doc))"
    by (rule make_windows_doc)
next
  show "TripPattern_make A distance encode (self\<lparr>tp_windows := ws\<rparr>) = None \<longleftrightarrow>
          TripPattern_make A distance encode self = None"
    by (rule make_windows_None)
qed

theorem make_raises_only_without_coordinates_witness:
  "TripPattern_make unrounded sample_distance id TripPattern_constructor =
     Some (TripPattern_constructor, Inl TypeError) \<and>
   (\<exists>doc. TripPattern_make unrounded sample_distance id one_point_line =
            Some (one_point_line, Inr doc)) \<and>
   (\<exists>s doc. TripPattern_make unrounded sample_distance id stalled_point_line =
            Some (s, Inr doc))"
proof -
  have n: "tp_geometry TripPattern_constructor = None"
    by (simp add: TripPattern_constructor_def)
  have o: "tp_geometry one_point_line = Some [(0, 0)]" by (simp add: one_point_line_eq)
  have w: "stalled_point_line =
             one_point_line\<lparr>tp_windows := [TimeWindow_constructor\<lparr>tw_speed := 0\<rparr>]\<rparr>"
    by (simp add: stalled_point_line_eq one_point_line_eq)
  obtain self' e where
    "TripPattern_make unrounded sample_distance id TripPattern_constructor = Some (self', Inl e)"
    using make_raises_only_without_coordinates
            [of unrounded sample_distance id TripPattern_constructor] n
    by blast
  moreover from this have "e = TypeError"
    using make_raises_only_without_coordinates
            [of unrounded sample_distance id TripPattern_constructor self' e]
    by blast
  moreover from calculation have "self' = TripPattern_constructor"
    using make_frame by blast
  ultimately have 1:
    "TripPattern_make unrounded sample_distance id TripPattern_constructor =
       Some (TripPattern_constructor, Inl TypeError)"
    by simp
  have 2: "\<exists>doc. TripPattern_make unrounded sample_distance id one_point_line =
                  Some (one_point_line, Inr doc)"
    using make_raises_only_without_coordinates
            [of unrounded sample_distance id one_point_line _ _ "(0, 0)"] o
    by blast
  then have "\<exists>s doc. TripPattern_make unrounded sample_distance id one_point_line =
                  Some (s, Inr doc)"
    by blast
  then have 3: "\<exists>s doc. TripPattern_make unrounded sample_distance id stalled_point_line =
                  Some (s, Inr doc)"
    using make_raises_only_without_coordinates
            [of unrounded sample_distance id one_point_line _ _ _
                "[TimeWindow_constructor\<lparr>tw_speed := 0\<rparr>]"]
    by (simp only: w)
  from 1 2 3 show ?thesis by (intro conjI)
qed

text \<open>
  C3, as the sentence has it, fails: a geometry of a single coordinate is accepted and gives
  a document, and so it is when the line is served at speed zero, where the hop time in the
  document is \<^verbatim>\<open>NaN\<close>. On these inputs the distance function is never called, and every
  operation is exact on doubles.
\<close>

theorem make_accepts_degenerate_input:
  "TripPattern_make unrounded sample_distance id one_point_line =
     Some (one_point_line,
       Inr \<lparr>atp_type = ''add-trip-pattern'', atp_name = ''New trip pattern'',
            atp_stops = [True], atp_timetables = [],
            atp_geometry = [(Finite 0, Finite 0)]\<rparr>) \<and>
   TripPattern_make unrounded sample_distance id stalled_point_line =
     Some (stalled_point_line,
       Inr \<lparr>atp_type = ''add-trip-pattern'', atp_name = ''New trip pattern'',
            atp_stops = [True],
            atp_timetables =
              [\<lparr>tt_startTime = Val 0, tt_endTime = Val 86399, tt_headwaySecs = Val 600,
                tt_frequency = True, tt_dwellTimes = [Val 0, Val 0],
                tt_hopTimes = [NaN],
                tt_days = [Val True, Val True, Val True, Val True, Val True, Val True,
                           Val True]\<rparr>],
            atp_geometry = [(Finite 0, Finite 0)]\<rparr>)"
  using one_point_make stalled_point_make by simp

text \<open>
  C6, as the code has it. The two setters throw exactly when the value is out of range
  (\<^verbatim>\<open>startTime\<close> outside \<open>[0, 86400]\<close>, \<^verbatim>\<open>endTime\<close> outside \<open>[0, 172800]\<close>) and then
  leave the window as it was; what they throw is a string. In range, the value is stored
  and the call without argument returns it.
\<close>

theorem time_setters_throw_out_of_range:
  "(v < 0 \<or> 86400 < v \<longrightarrow>
      (\<exists>m. TimeWindow_startTime self (Some v) = (self, Inl (Str m)))) \<and>
   (0 \<le> v \<and> v \<le> 86400 \<longrightarrow>
      TimeWindow_startTime self (Some v) = (self\<lparr>tw_start := v\<rparr>, Inr This) \<and>
      TimeWindow_startTime (fst (TimeWindow_startTime self (Some v))) None =
        (self\<lparr>tw_start := v\<rparr>, Inr (Val v))) \<and>
   (v < 0 \<or> 172800 < v \<longrightarrow>
      (\<exists>m. TimeWindow_endTime self (Some v) = (self, Inl (Str m)))) \<and>
   (0 \<le> v \<and> v \<le> 172800 \<longrightarrow>
      TimeWindow_endTime self (Some v) = (self\<lparr>tw_end := v\<rparr>, Inr This) \<and>
      TimeWindow_endTime (fst (TimeWindow_endTime self (Some v))) None =
        (self\<lparr>tw_end := v\<rparr>, Inr (Val v)))"
  by (auto simp: TimeWindow_startTime_def TimeWindow_endTime_def)

theorem time_setters_throw_out_of_range_witness:
  "(\<exists>m. TimeWindow_startTime TimeWindow_constructor (Some 90000) =
          (TimeWindow_constructor, Inl (Str m))) \<and>
   TimeWindow_startTime (fst (TimeWindow_startTime TimeWindow_constructor (Some 43200))) None =
     (TimeWindow_constructor\<lparr>tw_start := 43200\<rparr>, Inr (Val 43200)) \<and>
   (\<exists>m. TimeWindow_endTime TimeWindow_constructor (Some 172801) =
          (TimeWindow_constructor, Inl (Str m))) \<and>
   TimeWindow_endTime (fst (TimeWindow_endTime TimeWindow_constructor (Some 90000))) None =
     (TimeWindow_constructor\<lparr>tw_end := 90000\<rparr>, Inr (Val 90000))"
proof -
  have a: "(90000 :: real) < 0 \<or> 86400 < (90000 :: real)" by simp
  have b: "(0 :: real) \<le> 43200 \<and> (43200 :: real) \<le> 86400" by simp
  have c: "(172801 :: real) < 0 \<or> 172800 < (172801 :: real)" by simp
  have d: "(0 :: real) \<le> 90000 \<and> (90000 :: real) \<le> 172800" by simp
  from a time_setters_throw_out_of_range [of 90000 TimeWindow_constructor]
  have 1: "\<exists>m. TimeWindow_startTime TimeWindow_constructor (Some 90000) =
                (TimeWindow_constructor, Inl (Str m))"
    by blast
  from b time_setters_throw_out_of_range [of 43200 TimeWindow_constructor]
  have 2: "TimeWindow_startTime
             (fst (TimeWindow_startTime TimeWindow_constructor (Some 43200))) None =
           (TimeWindow_constructor\<lparr>tw_start := 43200\<rparr>, Inr (Val 43200))"
    by blast
  from c time_setters_throw_out_of_range [of 172801 TimeWindow_constructor]
  have 3: "\<exists>m. TimeWindow_endTime TimeWindow_constructor (Some 172801) =
                (TimeWindow_constructor, Inl (Str m))"
    by blast
  from d time_setters_throw_out_of_range [of 90000 TimeWindow_constructor]
  have 4: "TimeWindow_endTime
             (fst (TimeWindow_endTime TimeWindow_constructor (Some 90000))) None =
           (TimeWindow_constructor\<lparr>tw_end := 90000\<rparr>, Inr (Val 90000))"
    by blast
  from 1 2 3 4 show ?thesis by (intro conjI)
qed

text \<open>
  C6, as the sentence has it, fails: setting \<^verbatim>\<open>startTime\<close> to 90000 throws a string, not a
  RangeError.
\<close>

theorem startTime_throws_a_string:
  "snd (TimeWindow_startTime TimeWindow_constructor (Some 90000)) =
     Inl (Str ''Start time must be between zero and 24 * 3600. It is expressed in seconds since GTFS midnight.'') \<and>
   snd (TimeWindow_startTime TimeWindow_constructor (Some 90000)) \<noteq> Inl RangeError"
  by (simp add: TimeWindow_startTime_def)

text \<open>
  C8. A new RemoveTrip yields \<^verbatim>\<open>routeId\<close>, \<^verbatim>\<open>tripId\<close> and \<^verbatim>\<open>routeType\<close> all
  \<^verbatim>\<open>null\<close>; a new ConvertToFrequency yields the empty list as \<^verbatim>\<open>routeId\<close>, not
  \<^verbatim>\<open>null\<close>.
\<close>

theorem fresh_filters_null_or_empty:
  "rtd_routeId (snd (RemoveTrip_make RemoveTrip_constructor)) = None \<and>
   rtd_tripId (snd (RemoveTrip_make RemoveTrip_constructor)) = None \<and>
   rtd_routeType (snd (RemoveTrip_make RemoveTrip_constructor)) = None \<and>
   cfd_routeId (snd (ConvertToFrequency_make ConvertToFrequency_constructor)) = Some [] \<and>
   cfd_routeId (snd (ConvertToFrequency_make ConvertToFrequency_constructor)) \<noteq> None"
  by (simp add: RemoveTrip_make_def RemoveTrip_constructor_def ConvertToFrequency_make_def
      ConvertToFrequency_constructor_def)

text \<open>
  C9. Whatever the builder holds, \<^verbatim>\<open>name()\<close> without argument returns \<^verbatim>\<open>undefined\<close>
  and changes nothing; yet a name stored by \<^verbatim>\<open>name(s)\<close> is the \<^verbatim>\<open>name\<close> of the
  document that \<^verbatim>\<open>make\<close> returns.
\<close>

theorem name_getter_returns_undefined:
  "TripPattern_name self None = (self, Undefined) \<and>
   tp_name (fst (TripPattern_name self (Some s))) = s \<and>
   snd (TripPattern_name (fst (TripPattern_name self (Some s))) None) = Undefined \<and>
   (TripPattern_make A distance encode (fst (TripPattern_name self (Some s))) =
      Some (self', Inr doc) \<longrightarrow> atp_name doc = s)"
  using make_name [of A distance encode "fst (TripPattern_name self (Some s))" self' doc]
  by (simp add: TripPattern_name_def)

theorem name_getter_returns_undefined_witness:
  "snd (TripPattern_name (fst (TripPattern_name sample_line (Some ''Line 1''))) None) = Undefined \<and>
   (\<exists>self' doc. TripPattern_make unrounded sample_distance id
        (fst (TripPattern_name sample_line (Some ''Line 1''))) = Some (self', Inr doc) \<and>
      atp_name doc = ''Line 1'')"
proof -
  let ?named = "fst (TripPattern_name sample_line (Some ''Line 1''))"
  obtain doc where "TripPattern_make unrounded sample_distance id ?named = Some (?named, Inr doc)"
    using sample_make [of ?named] by (simp add: TripPattern_name_def sample_line_eq)
  then show ?thesis
    using name_getter_returns_undefined
            [of sample_line "''Line 1''" unrounded sample_distance id ?named doc]
    by blast
qed

text \<open>
  C10. A new AdjustHeadway yields the document with type \<^verbatim>\<open>adjust-headway\<close>, every
  filter \<^verbatim>\<open>null\<close> and a headway of 600 seconds.
\<close>

theorem fresh_AdjustHeadway_document:
  "snd (AdjustHeadway_make AdjustHeadway_constructor) =
     \<lparr>ahd_type = ''adjust-headway'', ahd_agencyId = None, ahd_routeId = None,
      ahd_tripId = None, ahd_routeType = None, ahd_headway = 600\<rparr>"
  by (simp add: AdjustHeadway_make_def AdjustHeadway_constructor_def)


end
